theory Spec2Isabelle
  imports Main
begin

section \<open>The declaration file \<^verbatim>\<open>pkg/wasm.d.ts\<close>\<close>

text \<open>
  The source is a generated TypeScript declaration file: one exported function
  \<^verbatim>\<open>start_app\<close>, the type alias \<^verbatim>\<open>InitInput\<close>, the interface \<^verbatim>\<open>InitOutput\<close> and the
  default export \<^verbatim>\<open>init\<close>. The declarations are embedded as data, type by type and member
  by member, in the order of the file.
\<close>

subsection \<open>Types\<close>

datatype ts_type =
    TNumber
  | TVoid
  | TUndefined
  | TRef string
  | TUnion "ts_type list"
  | TPromise ts_type
  | TFun "(string \<times> ts_type) list" ts_type

record param_decl =
  pname :: string
  optional :: bool
  ptype :: ts_type

record fun_decl =
  fname :: string
  default_export :: bool
  fparams :: "param_decl list"
  fret :: ts_type

record member_decl =
  mname :: string
  is_readonly :: bool
  mtype :: ts_type

subsection \<open>The declarations\<close>

text \<open>\<^verbatim>\<open>export function start_app(): void;\<close>\<close>

definition start_app :: fun_decl where
  "start_app =
     \<lparr>fname = ''start_app'', default_export = False, fparams = [], fret = TVoid\<rparr>"

text \<open>\<^verbatim>\<open>export type InitInput = RequestInfo | URL | Response | BufferSource | WebAssembly.Module;\<close>\<close>

definition InitInput :: ts_type where
  "InitInput =
     TUnion [TRef ''RequestInfo'', TRef ''URL'', TRef ''Response'',
             TRef ''BufferSource'', TRef ''WebAssembly.Module'']"

text \<open>The names of the two closure-invoking exports, as the file spells them.\<close>

definition dyn_invoke_FnMut_A_B :: string where
  "dyn_invoke_FnMut_A_B =
     ''_dyn_core__ops__function__FnMut__A_B___Output___R_as_wasm_bindgen__closure__WasmClosure___describe__invoke__h3394ec600d01342b''"

definition dyn_invoke_FnMut_A :: string where
  "dyn_invoke_FnMut_A =
     ''_dyn_core__ops__function__FnMut___A____Output___R_as_wasm_bindgen__closure__WasmClosure___describe__invoke__h61dd3d68460cfcb7''"

text \<open>\<^verbatim>\<open>export interface InitOutput { ... }\<close>, ten read-only members.\<close>

definition InitOutput :: "member_decl list" where
  "InitOutput =
    [\<lparr>mname = ''memory'', is_readonly = True, mtype = TRef ''WebAssembly.Memory''\<rparr>,
     \<lparr>mname = ''start_app'', is_readonly = True, mtype = TFun [] TVoid\<rparr>,
     \<lparr>mname = ''__wbindgen_malloc'', is_readonly = True,
      mtype = TFun [(''a'', TNumber)] TNumber\<rparr>,
     \<lparr>mname = ''__wbindgen_realloc'', is_readonly = True,
      mtype = TFun [(''a'', TNumber), (''b'', TNumber), (''c'', TNumber)] TNumber\<rparr>,
     \<lparr>mname = ''__wbindgen_export_2'', is_readonly = True,
      mtype = TRef ''WebAssembly.Table''\<rparr>,
     \<lparr>mname = dyn_invoke_FnMut_A_B, is_readonly = True,
      mtype = TFun [(''a'', TNumber), (''b'', TNumber), (''c'', TNumber),
                    (''d'', TNumber), (''e'', TNumber), (''f'', TNumber)] TNumber\<rparr>,
     \<lparr>mname = dyn_invoke_FnMut_A, is_readonly = True,
      mtype = TFun [(''a'', TNumber), (''b'', TNumber), (''c'', TNumber)] TVoid\<rparr>,
     \<lparr>mname = ''__wbindgen_free'', is_readonly = True,
      mtype = TFun [(''a'', TNumber), (''b'', TNumber)] TVoid\<rparr>,
     \<lparr>mname = ''__wbindgen_exn_store'', is_readonly = True,
      mtype = TFun [(''a'', TNumber)] TVoid\<rparr>,
     \<lparr>mname = ''__wbindgen_start'', is_readonly = True, mtype = TFun [] TVoid\<rparr>]"

text \<open>
  \<^verbatim>\<open>export default function init (module_or_path?: InitInput | Promise<InitInput>): Promise<InitOutput>;\<close>
\<close>

definition init :: fun_decl where
  "init =
     \<lparr>fname = ''init'', default_export = True,
      fparams = [\<lparr>pname = ''module_or_path'', optional = True,
                  ptype = TUnion [TRef ''InitInput'', TPromise (TRef ''InitInput'')]\<rparr>],
      fret = TPromise (TRef ''InitOutput'')\<rparr>"

text \<open>The functions the file exports, and the names it binds to a type or an interface.\<close>

definition exported_functions :: "fun_decl list" where
  "exported_functions = [start_app, init]"

definition alias_decl :: "string \<Rightarrow> ts_type option" where
  "alias_decl n = (if n = ''InitInput'' then Some InitInput else None)"

definition interface_decl :: "string \<Rightarrow> member_decl list option" where
  "interface_decl n = (if n = ''InitOutput'' then Some InitOutput else None)"

subsection \<open>Reading a declaration\<close>

text \<open>A named type stands for the type its alias declares; other names are left as they are.\<close>

fun expand :: "ts_type \<Rightarrow> ts_type" where
  "expand (TRef n) = (case alias_decl n of Some t \<Rightarrow> t | None \<Rightarrow> TRef n)"
| "expand (TUnion ts) = TUnion (map expand ts)"
| "expand (TPromise t) = TPromise (expand t)"
| "expand (TFun ps r) = TFun (map (\<lambda>p. (fst p, expand (snd p))) ps) (expand r)"
| "expand TNumber = TNumber"
| "expand TVoid = TVoid"
| "expand TUndefined = TUndefined"

text \<open>
  Run-time values. \<^verbatim>\<open>RequestInfo\<close>, \<^verbatim>\<open>URL\<close>, \<^verbatim>\<open>Response\<close>, \<^verbatim>\<open>BufferSource\<close> and the
  \<^verbatim>\<open>WebAssembly\<close> types are declared by the platform library (\<^verbatim>\<open>lib.dom.d.ts\<close>), not by
  this file, and the checker compares by structure: which of these names a value is
  assignable to is decided there. A value therefore carries the named platform types it
  is assignable to; a promise carries, besides, the value it resolves to. In
  \<^verbatim>\<open>lib.dom.d.ts\<close> the interface \<^verbatim>\<open>WebAssembly.Module\<close> has no members, so there every value
  but \<open>undefined\<close> and \<open>null\<close> carries that name, a number and a memory included.
\<close>

datatype js_value =
    VUndefined
  | VNumber "string list"
  | VObject "string list"
  | VPromise "string list" js_value

fun named_types :: "js_value \<Rightarrow> string list" where
  "named_types VUndefined = []"
| "named_types (VNumber ns) = ns"
| "named_types (VObject ns) = ns"
| "named_types (VPromise ns v) = ns"

fun has_type :: "js_value \<Rightarrow> ts_type \<Rightarrow> bool" where
  "has_type v (TUnion ts) = list_ex (has_type v) ts"
| "has_type v (TRef n) = (n \<in> set (named_types v))"
| "has_type (VPromise ns v) (TPromise t) = has_type v t"
| "has_type (VNumber ns) TNumber = True"
| "has_type VUndefined TUndefined = True"
| "has_type VUndefined TVoid = True"
| "has_type _ _ = False"

text \<open>
  A call is accepted when it passes at least the required parameters, at most the declared
  ones, and each argument has its parameter's type; an optional parameter (\<^verbatim>\<open>name?: T\<close>)
  may be left out or passed \<open>undefined\<close>.
\<close>

definition accepts_arg :: "param_decl \<Rightarrow> js_value \<Rightarrow> bool" where
  "accepts_arg p v = (has_type v (expand (ptype p)) \<or> (optional p \<and> v = VUndefined))"

definition required_count :: "fun_decl \<Rightarrow> nat" where
  "required_count f = length (filter (\<lambda>p. \<not> optional p) (fparams f))"

definition accepts_call :: "fun_decl \<Rightarrow> js_value list \<Rightarrow> bool" where
  "accepts_call f args =
     (required_count f \<le> length args \<and> length args \<le> length (fparams f) \<and>
      list_all2 accepts_arg (take (length args) (fparams f)) args)"

text \<open>The members of the handle a loader's promise resolves to.\<close>

definition handle_members :: "fun_decl \<Rightarrow> member_decl list" where
  "handle_members f =
     (case fret f of
        TPromise (TRef n) \<Rightarrow> (case interface_decl n of Some ms \<Rightarrow> ms | None \<Rightarrow> [])
      | _ \<Rightarrow> [])"

definition member_type :: "member_decl list \<Rightarrow> string \<Rightarrow> ts_type option" where
  "member_type ms n = map_of (map (\<lambda>m. (mname m, mtype m)) ms) n"

fun is_function :: "ts_type \<Rightarrow> bool" where
  "is_function (TFun ps r) = True"
| "is_function _ = False"

fun fun_arity :: "ts_type \<Rightarrow> nat option" where
  "fun_arity (TFun ps r) = Some (length ps)"
| "fun_arity _ = None"

fun return_type :: "ts_type \<Rightarrow> ts_type option" where
  "return_type (TFun ps r) = Some r"
| "return_type _ = None"

fun is_deferred :: "ts_type \<Rightarrow> bool" where
  "is_deferred (TPromise t) = True"
| "is_deferred _ = False"

definition returns_deferred :: "ts_type \<Rightarrow> bool" where
  "returns_deferred t = (case return_type t of Some r \<Rightarrow> is_deferred r | None \<Rightarrow> False)"

definition function_members :: "member_decl list \<Rightarrow> member_decl list" where
  "function_members ms = filter (\<lambda>m. is_function (mtype m)) ms"

subsection \<open>The handle's operations, in the specification's vocabulary\<close>

definition member_arity :: "member_decl list \<Rightarrow> string \<Rightarrow> nat option" where
  "member_arity ms n = Option.bind (member_type ms n) fun_arity"

definition returns_value :: "ts_type \<Rightarrow> bool" where
  "returns_value t = (case return_type t of Some r \<Rightarrow> r \<noteq> TVoid | None \<Rightarrow> False)"

fun starts_with :: "string \<Rightarrow> string \<Rightarrow> bool" where
  "starts_with [] s = True"
| "starts_with (c # cs) [] = False"
| "starts_with (c # cs) (d # ds) = (c = d \<and> starts_with cs ds)"

text \<open>
  The closure-invoking exports are the function members whose name begins with the path
  of the closure trait they were generated for.
\<close>

definition is_closure_invoke :: "member_decl \<Rightarrow> bool" where
  "is_closure_invoke m =
     (is_function (mtype m) \<and> starts_with ''_dyn_core__ops__function__FnMut'' (mname m))"

text \<open>
  The arities the specification gives the two invoke operations:
  \<^verbatim>\<open>invoke_binary(table_index, arg_a, arg_b, out_loc1, out_loc2)\<close> and
  \<^verbatim>\<open>invoke_nullary(table_index, context)\<close>.
\<close>

definition spec_invoke_binary_arity :: nat where
  "spec_invoke_binary_arity = 5"

definition spec_invoke_nullary_arity :: nat where
  "spec_invoke_nullary_arity = 2"

text \<open>
  The operations the specification lists for a handle, and the member of the interface that
  provides each. The exception store's members are the ones named \<^verbatim>\<open>__wbindgen_exn...\<close>; a
  read of the store hands the stored value back, so the member that provides it is one of
  them with a result.
\<close>

datatype bridge_op =
    LinearMemoryView | Allocate | Reallocate | Free | InvokeBinary | InvokeNullary
  | ExceptionStoreSetter | ExceptionGetClear | StartupHook | EntryPoint

definition is_exception_store_member :: "member_decl \<Rightarrow> bool" where
  "is_exception_store_member m = starts_with ''__wbindgen_exn'' (mname m)"

fun provides :: "member_decl \<Rightarrow> bridge_op \<Rightarrow> bool" where
  "provides m LinearMemoryView = (mtype m = TRef ''WebAssembly.Memory'')"
| "provides m Allocate = (mname m = ''__wbindgen_malloc'' \<and> is_function (mtype m))"
| "provides m Reallocate = (mname m = ''__wbindgen_realloc'' \<and> is_function (mtype m))"
| "provides m Free = (mname m = ''__wbindgen_free'' \<and> is_function (mtype m))"
| "provides m InvokeBinary = (mname m = dyn_invoke_FnMut_A_B \<and> is_function (mtype m))"
| "provides m InvokeNullary = (mname m = dyn_invoke_FnMut_A \<and> is_function (mtype m))"
| "provides m ExceptionStoreSetter =
     (mname m = ''__wbindgen_exn_store'' \<and> is_function (mtype m) \<and>
      \<not> returns_value (mtype m))"
| "provides m ExceptionGetClear =
     (is_exception_store_member m \<and> returns_value (mtype m))"
| "provides m StartupHook = (mname m = ''__wbindgen_start'' \<and> is_function (mtype m))"
| "provides m EntryPoint = (mname m = ''start_app'' \<and> is_function (mtype m))"

definition exposes :: "member_decl list \<Rightarrow> bridge_op \<Rightarrow> bool" where
  "exposes ms op = list_ex (\<lambda>m. provides m op) ms"

text \<open>
  The four source variants of the specification, and the variant of a value passed as
  \<^verbatim>\<open>module_or_path\<close>, read in the order of the alternatives of \<^verbatim>\<open>InitInput\<close>:
  \<^verbatim>\<open>RequestInfo\<close> and \<^verbatim>\<open>URL\<close> are the network references. A value that is none of them
  itself and is a promise has the variant of the value it resolves to.
\<close>

datatype source_variant = NetworkReference | ResponseObject | RawByteBuffer | PrecompiledModule

definition plain_variant :: "js_value \<Rightarrow> source_variant option" where
  "plain_variant v =
     (if ''RequestInfo'' \<in> set (named_types v) \<or> ''URL'' \<in> set (named_types v)
      then Some NetworkReference
      else if ''Response'' \<in> set (named_types v) then Some ResponseObject
      else if ''BufferSource'' \<in> set (named_types v) then Some RawByteBuffer
      else if ''WebAssembly.Module'' \<in> set (named_types v) then Some PrecompiledModule
      else None)"

fun awaited :: "js_value \<Rightarrow> js_value option" where
  "awaited (VPromise ns v) = Some v"
| "awaited _ = None"

definition source_variant_of :: "js_value \<Rightarrow> source_variant option" where
  "source_variant_of v =
     (case plain_variant v of
        Some k \<Rightarrow> Some k
      | None \<Rightarrow> (case awaited v of Some w \<Rightarrow> plain_variant w | None \<Rightarrow> None))"

section \<open>The loader and the exception store, from the specification\<close>

subsection \<open>Loading\<close>

text \<open>
  Modelled from the spec: the body of \<^verbatim>\<open>init\<close> is in the generated \<^verbatim>\<open>pkg/wasm.js\<close> and the
  module it instantiates is a compiled binary; neither is among the sources, which have
  the signature of \<^verbatim>\<open>init\<close> and its doc comment only. The model follows section 4.1 of the
  specification, step by step:
  \<^item> a deferred source is awaited before anything else, and its rejection is
    \<open>SourceUnavailable\<close>;
  \<^item> a network reference is fetched, and an unreachable source or a non-success status is
    \<open>SourceUnavailable\<close>; every other variant goes on as it is;
  \<^item> bytes that are not a valid module are \<open>MalformedModule\<close>;
  \<^item> with no memory given, a fresh Linear Memory of the module's minimum size is
    allocated; a given memory below that minimum is \<open>IncompatibleMemory\<close>;
  \<^item> the start-up routine of the module runs once, within instantiation, before the handle
    is returned, and its failure is \<open>InstantiationFailed\<close>.

  Fetching and decoding are parameters (\<open>loader_env\<close>). Of a module the loader needs its
  minimum memory size and whether its start-up routine succeeds. The steps of a load are
  recorded in order.
\<close>

type_synonym bytes = "nat list"

datatype load_error = SourceUnavailable | MalformedModule | IncompatibleMemory | InstantiationFailed

datatype fetch_outcome = Unreachable | Responded nat bytes

record binary_module =
  min_pages :: nat
  start_succeeds :: bool

datatype module_source =
    FromNetwork string
  | FromResponse bytes
  | FromBuffer bytes
  | FromModule binary_module

datatype deferred_source = Immediate module_source | Deferred "module_source option"

record linear_memory =
  pages :: nat
  host_supplied :: bool

record instantiated_handle =
  handle_module :: binary_module
  handle_memory :: linear_memory

datatype module_image = Bytes bytes | Compiled binary_module

datatype loader_event = Fetch string | Instantiate module_image | StartUp

record loader_env =
  fetch :: "string \<Rightarrow> fetch_outcome"
  decode :: "bytes \<Rightarrow> binary_module option"

definition success_status :: "nat \<Rightarrow> bool" where
  "success_status code = (200 \<le> code \<and> code \<le> 299)"

fun fetch_failed :: "fetch_outcome \<Rightarrow> bool" where
  "fetch_failed Unreachable = True"
| "fetch_failed (Responded code body) = (\<not> success_status code)"

fun resolve_source ::
  "loader_env \<Rightarrow> module_source \<Rightarrow> loader_event list \<times> (load_error + module_image)" where
  "resolve_source env (FromNetwork r) =
     (case fetch env r of
        Unreachable \<Rightarrow> ([Fetch r], Inl SourceUnavailable)
      | Responded code body \<Rightarrow>
          if success_status code then ([Fetch r], Inr (Bytes body))
          else ([Fetch r], Inl SourceUnavailable))"
| "resolve_source env (FromResponse b) = ([], Inr (Bytes b))"
| "resolve_source env (FromBuffer b) = ([], Inr (Bytes b))"
| "resolve_source env (FromModule m) = ([], Inr (Compiled m))"

fun validate :: "loader_env \<Rightarrow> module_image \<Rightarrow> load_error + binary_module" where
  "validate env (Bytes b) =
     (case decode env b of None \<Rightarrow> Inl MalformedModule | Some m \<Rightarrow> Inr m)"
| "validate env (Compiled m) = Inr m"

definition provide_memory ::
  "binary_module \<Rightarrow> linear_memory option \<Rightarrow> load_error + linear_memory" where
  "provide_memory m mem =
     (case mem of
        None \<Rightarrow> Inr \<lparr>pages = min_pages m, host_supplied = False\<rparr>
      | Some hm \<Rightarrow> if min_pages m \<le> pages hm then Inr hm else Inl IncompatibleMemory)"

definition instantiate ::
  "loader_env \<Rightarrow> module_image \<Rightarrow> linear_memory option \<Rightarrow>
   loader_event list \<times> (load_error + instantiated_handle)" where
  "instantiate env img mem =
     (case validate env img of
        Inl e \<Rightarrow> ([], Inl e)
      | Inr m \<Rightarrow>
          (case provide_memory m mem of
             Inl e \<Rightarrow> ([], Inl e)
           | Inr lm \<Rightarrow>
               ([StartUp],
                if start_succeeds m then Inr \<lparr>handle_module = m, handle_memory = lm\<rparr>
                else Inl InstantiationFailed)))"

definition load_resolved ::
  "loader_env \<Rightarrow> module_source \<Rightarrow> linear_memory option \<Rightarrow>
   loader_event list \<times> (load_error + instantiated_handle)" where
  "load_resolved env s mem =
     (case resolve_source env s of
        (ev, Inl e) \<Rightarrow> (ev, Inl e)
      | (ev, Inr img) \<Rightarrow>
          (ev @ Instantiate img # fst (instantiate env img mem),
           snd (instantiate env img mem)))"

fun load ::
  "loader_env \<Rightarrow> deferred_source \<Rightarrow> linear_memory option \<Rightarrow>
   loader_event list \<times> (load_error + instantiated_handle)" where
  "load env (Immediate s) mem = load_resolved env s mem"
| "load env (Deferred None) mem = ([], Inl SourceUnavailable)"
| "load env (Deferred (Some s)) mem = load_resolved env s mem"

text \<open>
  The source a load works on once a deferred value has been awaited, whether it is a
  network reference, and what a source that is not one hands to instantiation.
\<close>

fun resolved :: "deferred_source \<Rightarrow> module_source option" where
  "resolved (Immediate s) = Some s"
| "resolved (Deferred d) = d"

fun network_target :: "module_source \<Rightarrow> string option" where
  "network_target (FromNetwork r) = Some r"
| "network_target _ = None"

definition is_network_reference :: "deferred_source \<Rightarrow> bool" where
  "is_network_reference src = (Option.bind (resolved src) network_target \<noteq> None)"

fun direct_image :: "module_source \<Rightarrow> module_image option" where
  "direct_image (FromNetwork r) = None"
| "direct_image (FromResponse b) = Some (Bytes b)"
| "direct_image (FromBuffer b) = Some (Bytes b)"
| "direct_image (FromModule m) = Some (Compiled m)"

fun is_fetch :: "loader_event \<Rightarrow> bool" where
  "is_fetch (Fetch r) = True"
| "is_fetch _ = False"

text \<open>
  An environment to run the loader in: \<^verbatim>\<open>app.wasm\<close> answers 200 with the four bytes of a
  module header, \<^verbatim>\<open>missing.wasm\<close> answers 404, nothing else is reachable; the four bytes
  decode to a module that needs one page and whose start-up routine succeeds, and nothing
  else decodes.
\<close>

definition wasm_header :: bytes where
  "wasm_header = [0, 97, 115, 109]"

definition demo_env :: loader_env where
  "demo_env =
     \<lparr>fetch = (\<lambda>r. if r = ''app.wasm'' then Responded 200 wasm_header
                    else if r = ''missing.wasm'' then Responded 404 []
                    else Unreachable),
      decode = (\<lambda>b. if b = wasm_header then Some \<lparr>min_pages = 1, start_succeeds = True\<rparr>
                     else None)\<rparr>"

subsection \<open>The exception store\<close>

text \<open>
  Modelled from the spec: what \<^verbatim>\<open>__wbindgen_exn_store\<close> does is in the compiled module, and
  the host's read of the slot is in \<^verbatim>\<open>pkg/wasm.js\<close>; neither is among the sources, and the
  declaration file has the setter's signature \<^verbatim>\<open>(a: number) => void\<close> only. The model follows
  sections 3 and 4.4 of the specification: a single slot, which \<open>store_exception\<close> records
  a value into and which the host reads and clears. The payload is opaque.
\<close>

record 'v bridge_state =
  exception_slot :: "'v option"

definition store_exception :: "'v \<Rightarrow> 'v bridge_state \<Rightarrow> 'v bridge_state" where
  "store_exception v s = s\<lparr>exception_slot := Some v\<rparr>"

definition take_exception :: "'v bridge_state \<Rightarrow> 'v option \<times> 'v bridge_state" where
  "take_exception s = (exception_slot s, s\<lparr>exception_slot := None\<rparr>)"

section \<open>Properties of the declared interface\<close>

lemma handle_members_init: "handle_members init = InitOutput"
  by (simp add: handle_members_def init_def interface_decl_def)

lemma only_init_deferred: "filter (\<lambda>f. is_deferred (fret f)) exported_functions = [init]"
  by (simp add: exported_functions_def init_def start_app_def)

lemma has_type_InitInput: "has_type v InitInput = (plain_variant v \<noteq> None)"
  by (simp add: InitInput_def plain_variant_def)

lemma has_type_Promise_InitInput:
  "has_type v (TPromise InitInput) = (\<exists>w. awaited v = Some w \<and> plain_variant w \<noteq> None)"
  by (cases v) (simp_all add: has_type_InitInput)

lemma init_param_type:
  "has_type v (expand (TUnion [TRef ''InitInput'', TPromise (TRef ''InitInput'')])) =
     (source_variant_of v \<noteq> None)"
  by (auto simp add: alias_decl_def has_type_InitInput has_type_Promise_InitInput
      source_variant_of_def split: option.splits)

text \<open>
  The checker accepts a number, a memory, a promise of a number and a promise of a promise
  of a URL as the source when, as in \<^verbatim>\<open>lib.dom.d.ts\<close>, each is assignable to
  \<^verbatim>\<open>WebAssembly.Module\<close>; a value assignable to none of the five types is refused.
\<close>

lemma structural_sources_accepted:
  "accepts_call init [VNumber [''WebAssembly.Module'']] \<and>
   accepts_call init [VObject [''WebAssembly.Memory'', ''WebAssembly.Module'']] \<and>
   accepts_call init [VPromise [''WebAssembly.Module''] (VNumber [''WebAssembly.Module''])] \<and>
   accepts_call init
     [VPromise [''WebAssembly.Module'']
        (VPromise [''WebAssembly.Module''] (VObject [''URL'', ''WebAssembly.Module'']))] \<and>
   \<not> accepts_call init [VObject []]"
  by (simp add: init_def accepts_call_def accepts_arg_def required_count_def alias_decl_def
      InitInput_def)

section \<open>Properties of the modelled loader\<close>

lemma resolve_source_events: "list_all is_fetch (fst (resolve_source env s))"
  by (cases s) (auto split: fetch_outcome.splits)

lemma resolve_source_fetches:
  "list_ex is_fetch (fst (resolve_source env s)) = (network_target s \<noteq> None)"
  by (cases s) (auto split: fetch_outcome.splits)

lemma instantiate_events: "\<not> list_ex is_fetch (fst (instantiate env img mem))"
  by (auto simp add: instantiate_def split: sum.splits)

lemma load_resolved_fetches:
  "list_ex is_fetch (fst (load_resolved env s mem)) = (network_target s \<noteq> None)"
proof -
  obtain ev r where res: "resolve_source env s = (ev, r)" by (cases "resolve_source env s")
  then have ev: "list_ex is_fetch ev = (network_target s \<noteq> None)"
    using resolve_source_fetches [of env s] by simp
  show ?thesis
  proof (cases r)
    case (Inl e)
    with res ev show ?thesis by (simp add: load_resolved_def)
  next
    case (Inr img)
    with res ev instantiate_events [of env img mem] show ?thesis
      by (simp add: load_resolved_def)
  qed
qed

lemma load_of_resolved:
  "resolved src = Some s \<Longrightarrow> load env src mem = load_resolved env s mem"
  by (cases src) auto

lemma load_fetches: "list_ex is_fetch (fst (load env src mem)) = is_network_reference src"
proof (cases "resolved src")
  case None
  then have "src = Deferred None" by (cases src) auto
  then show ?thesis by (simp add: is_network_reference_def)
next
  case (Some s)
  then show ?thesis
    by (simp add: load_of_resolved load_resolved_fetches is_network_reference_def)
qed

lemma load_resolved_fetch_failed:
  "fetch_failed (fetch env r) \<Longrightarrow>
   load_resolved env (FromNetwork r) mem = ([Fetch r], Inl SourceUnavailable)"
  by (cases "fetch env r") (auto simp add: load_resolved_def)

lemma load_resolved_fetch_succeeded:
  "fetch env r = Responded code body \<Longrightarrow> success_status code \<Longrightarrow>
   load_resolved env (FromNetwork r) mem =
     (Fetch r # Instantiate (Bytes body) # fst (instantiate env (Bytes body) mem),
      snd (instantiate env (Bytes body) mem))"
  by (simp add: load_resolved_def)

lemma load_resolved_direct:
  "direct_image s = Some img \<Longrightarrow>
   load_resolved env s mem =
     (Instantiate img # fst (instantiate env img mem), snd (instantiate env img mem))"
  by (cases s) (auto simp add: load_resolved_def)

lemma load_resolved_first_step:
  "take 1 (fst (load_resolved env (FromNetwork r) mem)) = [Fetch r]"
  by (cases "fetch env r") (auto simp add: load_resolved_def)

lemma instantiate_success:
  "snd (instantiate env img mem) = Inr h \<Longrightarrow>
   fst (instantiate env img mem) = [StartUp] \<and>
   provide_memory (handle_module h) mem = Inr (handle_memory h)"
  by (auto simp add: instantiate_def split: sum.splits if_splits)

lemma validate_error: "validate env img = Inl e \<Longrightarrow> e = MalformedModule"
  by (cases img) (auto split: option.splits)

lemma instantiate_not_incompatible:
  "snd (instantiate env img None) \<noteq> Inl IncompatibleMemory"
  by (auto simp add: instantiate_def provide_memory_def split: sum.splits
      dest: validate_error)

lemma load_resolved_success:
  assumes "snd (load_resolved env s mem) = Inr h"
  shows "\<exists>ev img. fst (load_resolved env s mem) = ev @ [Instantiate img, StartUp] \<and>
           list_all is_fetch ev \<and> snd (instantiate env img mem) = Inr h"
proof -
  obtain ev r where res: "resolve_source env s = (ev, r)" by (cases "resolve_source env s")
  have ev: "list_all is_fetch ev" using resolve_source_events [of env s] res by simp
  show ?thesis
  proof (cases r)
    case (Inl e)
    with res assms show ?thesis by (simp add: load_resolved_def)
  next
    case (Inr img)
    with res assms have h: "snd (instantiate env img mem) = Inr h"
      by (simp add: load_resolved_def)
    then have "fst (instantiate env img mem) = [StartUp]"
      using instantiate_success by blast
    with res Inr ev h show ?thesis by (simp add: load_resolved_def)
  qed
qed

lemma load_success:
  assumes "snd (load env src mem) = Inr h"
  shows "\<exists>ev img. fst (load env src mem) = ev @ [Instantiate img, StartUp] \<and>
           list_all is_fetch ev \<and> snd (instantiate env img mem) = Inr h"
proof (cases "resolved src")
  case None
  then have "src = Deferred None" by (cases src) auto
  with assms show ?thesis by simp
next
  case (Some s)
  with assms load_resolved_success [of env s mem h] show ?thesis
    by (simp add: load_of_resolved)
qed

lemma count_no_start: "list_all is_fetch ev \<Longrightarrow> count_list ev StartUp = 0"
  by (induction ev) auto

lemma load_not_incompatible: "snd (load env src None) \<noteq> Inl IncompatibleMemory"
proof (cases "resolved src")
  case None
  then have "src = Deferred None" by (cases src) auto
  then show ?thesis by simp
next
  case (Some s)
  obtain ev r where res: "resolve_source env s = (ev, r)" by (cases "resolve_source env s")
  have "snd (load_resolved env s None) \<noteq> Inl IncompatibleMemory"
  proof (cases r)
    case (Inl e)
    with res have "e = SourceUnavailable"
      by (cases s) (auto split: fetch_outcome.splits if_splits)
    with res Inl show ?thesis by (simp add: load_resolved_def)
  next
    case (Inr img)
    with res instantiate_not_incompatible [of env img] show ?thesis
      by (simp add: load_resolved_def)
  qed
  with Some show ?thesis by (simp add: load_of_resolved)
qed

lemma demo_load_app:
  "load demo_env (Immediate (FromNetwork ''app.wasm'')) None =
     ([Fetch ''app.wasm'', Instantiate (Bytes wasm_header), StartUp],
      Inr \<lparr>handle_module = \<lparr>min_pages = 1, start_succeeds = True\<rparr>,
           handle_memory = \<lparr>pages = 1, host_supplied = False\<rparr>\<rparr>)"
  by (simp add: demo_env_def load_resolved_def instantiate_def provide_memory_def
      success_status_def)

lemma demo_load_buffer:
  "load demo_env (Deferred (Some (FromBuffer wasm_header))) None =
     ([Instantiate (Bytes wasm_header), StartUp],
      Inr \<lparr>handle_module = \<lparr>min_pages = 1, start_succeeds = True\<rparr>,
           handle_memory = \<lparr>pages = 1, host_supplied = False\<rparr>\<rparr>)"
  by (simp add: demo_env_def load_resolved_def instantiate_def provide_memory_def)

section \<open>The interface and the loader against the specification\<close>

subsection \<open>The loader's signature\<close>

text \<open>
  C1, as the declaration has it. The loader accepts no second parameter: it declares one
  parameter, the optional \<^verbatim>\<open>module_or_path\<close>, and a call that passes a second argument is
  never accepted, so a load is never given a Linear Memory; the memory of a load is the
  \<^verbatim>\<open>memory\<close> member of the handle. With the memory omitted the loader allocates a fresh
  Linear Memory of the module's minimum size, the handle of a successful load holds a
  fresh memory of at least that size, and no load fails with \<open>IncompatibleMemory\<close>.
\<close>

theorem init_takes_no_memory_parameter:
  "map pname (fparams init) = [''module_or_path''] \<and>
   \<not> accepts_call init (source # memory # extra) \<and>
   member_type (handle_members init) ''memory'' = Some (TRef ''WebAssembly.Memory'') \<and>
   provide_memory m None = Inr \<lparr>pages = min_pages m, host_supplied = False\<rparr> \<and>
   (snd (load env src None) = Inr h \<longrightarrow>
      \<not> host_supplied (handle_memory h) \<and>
      min_pages (handle_module h) \<le> pages (handle_memory h)) \<and>
   snd (load env src None) \<noteq> Inl IncompatibleMemory"
proof (intro conjI impI)
  show "map pname (fparams init) = [''module_or_path'']" by (simp add: init_def)
next
  show "\<not> accepts_call init (source # memory # extra)"
    by (simp add: init_def accepts_call_def)
next
  show "member_type (handle_members init) ''memory'' = Some (TRef ''WebAssembly.Memory'')"
    unfolding handle_members_init by (simp add: member_type_def InitOutput_def)
next
  show "provide_memory m None = Inr \<lparr>pages = min_pages m, host_supplied = False\<rparr>"
    by (simp add: provide_memory_def)
next
  assume ok: "snd (load env src None) = Inr h"
  then obtain img where "snd (instantiate env img None) = Inr h"
    using load_success by blast
  then have mem: "provide_memory (handle_module h) None = Inr (handle_memory h)"
    using instantiate_success by blast
  then have eq:
    "handle_memory h = \<lparr>pages = min_pages (handle_module h), host_supplied = False\<rparr>"
    by (simp add: provide_memory_def)
  show "\<not> host_supplied (handle_memory h)"
    by (subst eq) simp
  show "min_pages (handle_module h) \<le> pages (handle_memory h)"
    by (subst eq) simp
next
  show "snd (load env src None) \<noteq> Inl IncompatibleMemory"
    by (rule load_not_incompatible)
qed

theorem init_takes_no_memory_parameter_witness:
  "snd (load demo_env (Immediate (FromNetwork ''app.wasm'')) None) =
     Inr \<lparr>handle_module = \<lparr>min_pages = 1, start_succeeds = True\<rparr>,
          handle_memory = \<lparr>pages = 1, host_supplied = False\<rparr>\<rparr> \<and>
   \<not> host_supplied \<lparr>pages = 1, host_supplied = False\<rparr> \<and>
   min_pages \<lparr>min_pages = 1, start_succeeds = True\<rparr> \<le>
     pages \<lparr>pages = 1, host_supplied = False\<rparr>"
  using init_takes_no_memory_parameter
          [of "VUndefined" "VUndefined" "[]" "\<lparr>min_pages = 1, start_succeeds = True\<rparr>"
              demo_env "Immediate (FromNetwork ''app.wasm'')"
              "\<lparr>handle_module = \<lparr>min_pages = 1, start_succeeds = True\<rparr>,
                handle_memory = \<lparr>pages = 1, host_supplied = False\<rparr>\<rparr>"]
  by (simp add: demo_load_app del: load.simps)

text \<open>
  C1 as stated fails: the loader has one parameter, and the call with a byte buffer and a
  memory is rejected.
\<close>

theorem init_second_parameter_counterexample:
  "length (fparams init) = 1 \<and>
   \<not> accepts_call init
       [VObject [''BufferSource''], VObject [''WebAssembly.Memory'', ''WebAssembly.Module'']]"
  by (simp add: init_def accepts_call_def)

text \<open>
  C4. The loader may be called with no source argument: its single parameter
  \<^verbatim>\<open>module_or_path\<close> is declared optional, so the call with no argument is accepted.
\<close>

theorem init_accepts_no_argument:
  "map pname (fparams init) = [''module_or_path''] \<and>
   map optional (fparams init) = [True] \<and>
   required_count init = 0 \<and>
   accepts_call init []"
  by (simp add: init_def required_count_def accepts_call_def)

text \<open>
  C5, as the declaration has it. A call of the loader is accepted exactly when it passes
  no source, \<open>undefined\<close>, or one value that the declaration reads as a network reference
  (\<^verbatim>\<open>RequestInfo\<close> or \<^verbatim>\<open>URL\<close>), a response, a byte buffer or a compiled module, or a promise
  of such a value; the loader returns a promise of the handle, whose members are those of
  \<^verbatim>\<open>InitOutput\<close>.
\<close>

theorem init_accepted_sources:
  "accepts_call init args =
     (args = [] \<or> args = [VUndefined] \<or> (\<exists>v. args = [v] \<and> source_variant_of v \<noteq> None)) \<and>
   fret init = TPromise (TRef ''InitOutput'') \<and>
   handle_members init = InitOutput"
proof (intro conjI)
  show "accepts_call init args =
     (args = [] \<or> args = [VUndefined] \<or> (\<exists>v. args = [v] \<and> source_variant_of v \<noteq> None))"
  proof (cases args)
    case Nil
    then show ?thesis by (simp add: init_def accepts_call_def required_count_def)
  next
    case (Cons v rest)
    show ?thesis
    proof (cases rest)
      case Nil
      have "accepts_call init [v] = (v = VUndefined \<or> source_variant_of v \<noteq> None)"
        using init_param_type [of v]
        by (auto simp add: init_def accepts_call_def required_count_def accepts_arg_def)
      with Cons Nil show ?thesis by auto
    next
      case (Cons w extra)
      with \<open>args = v # rest\<close> show ?thesis
        by (simp add: init_def accepts_call_def)
    qed
  qed
next
  show "fret init = TPromise (TRef ''InitOutput'')" by (simp add: init_def)
next
  show "handle_members init = InitOutput" by (rule handle_members_init)
qed

text \<open>
  C5 as stated fails: the call that passes \<open>undefined\<close> as the source is accepted, and
  \<open>undefined\<close> is none of the four variants.
\<close>

theorem undefined_source_counterexample:
  "accepts_call init [VUndefined] \<and> source_variant_of VUndefined = None"
  by (simp add: init_def accepts_call_def accepts_arg_def required_count_def
      source_variant_of_def plain_variant_def)

subsection \<open>The members of the handle\<close>

text \<open>
  C2, as the declaration has it. The handle has exactly two closure-invoking exports: the
  one for closures of two arguments takes six numbers and returns a number, the one for
  closures of one argument takes three numbers and returns nothing.
\<close>

theorem closure_invoke_shapes:
  "map (\<lambda>m. (mname m, mtype m)) (filter is_closure_invoke (handle_members init)) =
     [(dyn_invoke_FnMut_A_B,
       TFun [(''a'', TNumber), (''b'', TNumber), (''c'', TNumber),
             (''d'', TNumber), (''e'', TNumber), (''f'', TNumber)] TNumber),
      (dyn_invoke_FnMut_A,
       TFun [(''a'', TNumber), (''b'', TNumber), (''c'', TNumber)] TVoid)]"
  unfolding handle_members_init
  by (simp add: InitOutput_def is_closure_invoke_def
      dyn_invoke_FnMut_A_B_def dyn_invoke_FnMut_A_def)

text \<open>
  C2 as stated fails: the two exports take six and three arguments, not the five and two
  of \<^verbatim>\<open>invoke_binary\<close> and \<^verbatim>\<open>invoke_nullary\<close>.
\<close>

theorem invoke_arity_counterexample:
  "member_arity (handle_members init) dyn_invoke_FnMut_A_B = Some 6 \<and>
   member_arity (handle_members init) dyn_invoke_FnMut_A = Some 3 \<and>
   member_arity (handle_members init) dyn_invoke_FnMut_A_B \<noteq> Some spec_invoke_binary_arity \<and>
   member_arity (handle_members init) dyn_invoke_FnMut_A \<noteq> Some spec_invoke_nullary_arity"
  unfolding handle_members_init
  by (simp add: InitOutput_def member_arity_def member_type_def
      spec_invoke_binary_arity_def spec_invoke_nullary_arity_def
      dyn_invoke_FnMut_A_B_def dyn_invoke_FnMut_A_def)

text \<open>
  C3, as the declaration has it. The handle of a load exposes the Linear Memory view,
  allocate, reallocate and free, the two invoke operations, the exception-store setter,
  the start-up hook and the entry point; and the start-up hook is invoked automatically:
  in every successful load the start-up routine has run exactly once, as the last step
  before the handle is returned.
\<close>

theorem handle_exposes_bridge_operations:
  "exposes (handle_members init) LinearMemoryView \<and>
   exposes (handle_members init) Allocate \<and>
   exposes (handle_members init) Reallocate \<and>
   exposes (handle_members init) Free \<and>
   exposes (handle_members init) InvokeBinary \<and>
   exposes (handle_members init) InvokeNullary \<and>
   exposes (handle_members init) ExceptionStoreSetter \<and>
   exposes (handle_members init) StartupHook \<and>
   exposes (handle_members init) EntryPoint \<and>
   (snd (load env src mem) = Inr h \<longrightarrow>
      count_list (fst (load env src mem)) StartUp = 1 \<and>
      last (fst (load env src mem)) = StartUp)"
proof -
  have exposed:
    "exposes InitOutput LinearMemoryView \<and> exposes InitOutput Allocate \<and>
     exposes InitOutput Reallocate \<and> exposes InitOutput Free \<and>
     exposes InitOutput InvokeBinary \<and> exposes InitOutput InvokeNullary \<and>
     exposes InitOutput ExceptionStoreSetter \<and> exposes InitOutput StartupHook \<and>
     exposes InitOutput EntryPoint"
    by (simp add: exposes_def InitOutput_def returns_value_def)
  have started:
    "count_list (fst (load env src mem)) StartUp = 1 \<and> last (fst (load env src mem)) = StartUp"
    if "snd (load env src mem) = Inr h"
  proof -
    from that obtain ev img where
      "fst (load env src mem) = ev @ [Instantiate img, StartUp]" and "list_all is_fetch ev"
      using load_success by blast
    then show ?thesis by (simp add: count_no_start)
  qed
  from exposed started show ?thesis unfolding handle_members_init by blast
qed

theorem handle_exposes_bridge_operations_witness:
  "snd (load demo_env (Deferred (Some (FromBuffer wasm_header))) None) =
     Inr \<lparr>handle_module = \<lparr>min_pages = 1, start_succeeds = True\<rparr>,
          handle_memory = \<lparr>pages = 1, host_supplied = False\<rparr>\<rparr> \<and>
   count_list (fst (load demo_env (Deferred (Some (FromBuffer wasm_header))) None)) StartUp = 1 \<and>
   last (fst (load demo_env (Deferred (Some (FromBuffer wasm_header))) None)) = StartUp"
  using handle_exposes_bridge_operations
          [of demo_env "Deferred (Some (FromBuffer wasm_header))" None
              "\<lparr>handle_module = \<lparr>min_pages = 1, start_succeeds = True\<rparr>,
                handle_memory = \<lparr>pages = 1, host_supplied = False\<rparr>\<rparr>"]
  by (simp add: demo_load_buffer del: load.simps)

text \<open>
  C3 as stated fails: the handle has ten members; the only one of the exception store is
  the setter, which returns nothing, and no member reads the store for the host.
\<close>

theorem exception_getter_counterexample:
  "map mname (handle_members init) =
     [''memory'', ''start_app'', ''__wbindgen_malloc'', ''__wbindgen_realloc'',
      ''__wbindgen_export_2'', dyn_invoke_FnMut_A_B, dyn_invoke_FnMut_A,
      ''__wbindgen_free'', ''__wbindgen_exn_store'', ''__wbindgen_start''] \<and>
   map (\<lambda>m. (mname m, mtype m)) (filter is_exception_store_member (handle_members init)) =
     [(''__wbindgen_exn_store'', TFun [(''a'', TNumber)] TVoid)] \<and>
   \<not> exposes (handle_members init) ExceptionGetClear"
  unfolding handle_members_init
  by (simp add: exposes_def InitOutput_def returns_value_def is_exception_store_member_def
      dyn_invoke_FnMut_A_B_def dyn_invoke_FnMut_A_def)

text \<open>
  C7. The memory-management members have the stated shapes: allocate takes one number and
  returns a number, reallocate takes three numbers and returns a number, free takes two
  numbers and returns nothing.
\<close>

theorem memory_management_shapes:
  "member_type (handle_members init) ''__wbindgen_malloc'' =
     Some (TFun [(''a'', TNumber)] TNumber) \<and>
   member_type (handle_members init) ''__wbindgen_realloc'' =
     Some (TFun [(''a'', TNumber), (''b'', TNumber), (''c'', TNumber)] TNumber) \<and>
   member_type (handle_members init) ''__wbindgen_free'' =
     Some (TFun [(''a'', TNumber), (''b'', TNumber)] TVoid)"
  unfolding handle_members_init
  by (simp add: InitOutput_def member_type_def
      dyn_invoke_FnMut_A_B_def dyn_invoke_FnMut_A_def)

text \<open>
  C8. Of the exported functions only the loader returns a deferred value; the function
  members of the handle are the entry point, allocate, reallocate, the two invokes, free,
  the exception-store setter and the start-up hook, and none of them returns one.
\<close>

theorem only_the_loader_is_deferred:
  "filter (\<lambda>f. is_deferred (fret f)) exported_functions = [init] \<and>
   map mname (function_members (handle_members init)) =
     [''start_app'', ''__wbindgen_malloc'', ''__wbindgen_realloc'', dyn_invoke_FnMut_A_B,
      dyn_invoke_FnMut_A, ''__wbindgen_free'', ''__wbindgen_exn_store'',
      ''__wbindgen_start''] \<and>
   filter (\<lambda>m. returns_deferred (mtype m)) (function_members (handle_members init)) = []"
  unfolding handle_members_init
  by (simp add: only_init_deferred InitOutput_def function_members_def returns_deferred_def)

text \<open>
  C10. The handle exposes the dispatch table itself: the member \<^verbatim>\<open>__wbindgen_export_2\<close> is
  a \<^verbatim>\<open>WebAssembly.Table\<close> object, not a function, and it is the only member of that type.
\<close>

theorem handle_exposes_dispatch_table:
  "member_type (handle_members init) ''__wbindgen_export_2'' =
     Some (TRef ''WebAssembly.Table'') \<and>
   \<not> is_function (TRef ''WebAssembly.Table'') \<and>
   map mname (filter (\<lambda>m. mtype m = TRef ''WebAssembly.Table'') (handle_members init)) =
     [''__wbindgen_export_2'']"
  unfolding handle_members_init
  by (simp add: InitOutput_def member_type_def)

subsection \<open>The modelled loader and exception store\<close>

text \<open>
  C6. The loader fetches exactly when the source is a network reference, and then the
  fetch is its first step; a fetch that fails (unreachable, or a non-success status) fails
  the load with \<open>SourceUnavailable\<close>, with no handle and no instantiation; a fetch that
  succeeds is followed by the instantiation of the bytes it returned; every other source is
  instantiated directly, with no fetch.
\<close>

theorem load_fetches_only_network_references:
  "list_ex is_fetch (fst (load env src mem)) = is_network_reference src \<and>
   (resolved src = Some (FromNetwork r) \<longrightarrow> take 1 (fst (load env src mem)) = [Fetch r]) \<and>
   (resolved src = Some (FromNetwork r) \<longrightarrow> fetch_failed (fetch env r) \<longrightarrow>
      load env src mem = ([Fetch r], Inl SourceUnavailable)) \<and>
   (resolved src = Some (FromNetwork r) \<longrightarrow> fetch env r = Responded code body \<longrightarrow>
    success_status code \<longrightarrow>
      load env src mem =
        (Fetch r # Instantiate (Bytes body) # fst (instantiate env (Bytes body) mem),
         snd (instantiate env (Bytes body) mem))) \<and>
   (resolved src = Some s \<longrightarrow> direct_image s = Some img \<longrightarrow>
      load env src mem =
        (Instantiate img # fst (instantiate env img mem),
         snd (instantiate env img mem)))"
proof (intro conjI impI)
  show "list_ex is_fetch (fst (load env src mem)) = is_network_reference src"
    by (rule load_fetches)
next
  assume "resolved src = Some (FromNetwork r)"
  then show "take 1 (fst (load env src mem)) = [Fetch r]"
    using load_resolved_first_step [of env r mem] by (simp add: load_of_resolved)
next
  assume "resolved src = Some (FromNetwork r)" and "fetch_failed (fetch env r)"
  then show "load env src mem = ([Fetch r], Inl SourceUnavailable)"
    by (simp add: load_of_resolved load_resolved_fetch_failed)
next
  assume "resolved src = Some (FromNetwork r)" and "fetch env r = Responded code body"
    and "success_status code"
  then show "load env src mem =
        (Fetch r # Instantiate (Bytes body) # fst (instantiate env (Bytes body) mem),
         snd (instantiate env (Bytes body) mem))"
    by (simp add: load_of_resolved load_resolved_fetch_succeeded)
next
  assume "resolved src = Some s" and "direct_image s = Some img"
  then show "load env src mem =
        (Instantiate img # fst (instantiate env img mem),
         snd (instantiate env img mem))"
    by (simp add: load_of_resolved load_resolved_direct)
qed

theorem load_fetches_only_network_references_witness:
  "is_network_reference (Deferred (Some (FromNetwork ''app.wasm''))) \<and>
   fetch demo_env ''app.wasm'' = Responded 200 wasm_header \<and> success_status 200 \<and>
   load demo_env (Deferred (Some (FromNetwork ''app.wasm''))) None =
     ([Fetch ''app.wasm'', Instantiate (Bytes wasm_header), StartUp],
      Inr \<lparr>handle_module = \<lparr>min_pages = 1, start_succeeds = True\<rparr>,
           handle_memory = \<lparr>pages = 1, host_supplied = False\<rparr>\<rparr>) \<and>
   fetch_failed (fetch demo_env ''missing.wasm'') \<and>
   load demo_env (Immediate (FromNetwork ''missing.wasm'')) None =
     ([Fetch ''missing.wasm''], Inl SourceUnavailable) \<and>
   load demo_env (Immediate (FromBuffer wasm_header)) None =
     ([Instantiate (Bytes wasm_header), StartUp],
      Inr \<lparr>handle_module = \<lparr>min_pages = 1, start_succeeds = True\<rparr>,
           handle_memory = \<lparr>pages = 1, host_supplied = False\<rparr>\<rparr>)"
  using load_fetches_only_network_references
          [of demo_env "Deferred (Some (FromNetwork ''app.wasm''))" None "''app.wasm''"
              200 wasm_header "FromNetwork ''app.wasm''" "Bytes wasm_header"]
        load_fetches_only_network_references
          [of demo_env "Immediate (FromNetwork ''missing.wasm'')" None "''missing.wasm''"
              404 "[]" "FromNetwork ''missing.wasm''" "Bytes []"]
        load_fetches_only_network_references
          [of demo_env "Immediate (FromBuffer wasm_header)" None "''app.wasm''"
              200 wasm_header "FromBuffer wasm_header" "Bytes wasm_header"]
  by (simp add: demo_env_def is_network_reference_def success_status_def instantiate_def
      provide_memory_def)

text \<open>
  C9. A value stored into the exception store is the value the next read returns, whatever
  the slot held before; the read leaves the slot empty.
\<close>

theorem exception_store_round_trip:
  "fst (take_exception (store_exception v s)) = Some v \<and>
   exception_slot (snd (take_exception (store_exception v s))) = None"
  by (simp add: take_exception_def store_exception_def)

end
